theory Spec2Isabelle
  imports Main "HOL-Library.Word"
begin

section \<open>Values exchanged with the server\<close>

text \<open>
  The connection identifier is a number or the sentinel \<^verbatim>\<open>'<monitor>'\<close>.
\<close>

datatype conn_id = Id nat | Monitor

text \<open>
  A cluster time document: the timestamp that \<^verbatim>\<open>greaterThan\<close> compares, and
  the signature that travels with it.
\<close>

record cluster_time =
  clusterTime :: nat
  signature :: nat

text \<open>
  A reply document, reduced to the fields the connection reads; \<open>payload\<close> stands for
  everything else. A raw buffer (raw mode) shows none of the fields, like a document in
  which all of them are absent.
\<close>

record document =
  ok :: "int option"
  dollar_err :: "string option"
  errmsg :: "string option"
  code :: "int option"
  writeConcernError :: "nat option"
  dollar_clusterTime :: "cluster_time option"
  payload :: nat

text \<open>JavaScript truthiness of an optional string and of an optional number.\<close>

fun truthy_str :: "string option \<Rightarrow> bool" where
  "truthy_str None = False"
| "truthy_str (Some s) = (s \<noteq> [])"

fun truthy_num :: "int option \<Rightarrow> bool" where
  "truthy_num None = False"
| "truthy_num (Some n) = (n \<noteq> 0)"

text \<open>
  The error kinds of \<^verbatim>\<open>../error\<close> that the connection constructs. The two network
  errors carry the identifier and the address their message is built from
  (\<^verbatim>\<open>connection ${id} to ${address} closed\<close> and \<^verbatim>\<open>... timed out\<close>), the
  parse error the declared size and, for an oversized message, the allowed maximum.
  \<open>Thrown\<close> is a value raised by a collaborator (the BSON parser, the socket, the
  session layer).
\<close>

datatype error =
    MongoNetworkError conn_id string
  | MongoNetworkTimeoutError conn_id string bool
  | MongoParseError int "int option"
  | MongoRuntimeError string
  | MongoServerError document
  | MongoWriteConcernError nat document
  | MongoCompatibilityError string
  | MongoUnexpectedServerResponseError string
  | AbortError
  | TypeError
  | Thrown nat

definition INVALID_QUEUE_SIZE :: string where
  "INVALID_QUEUE_SIZE = ''Connection internal queue contains more than 1 operation description''"

fun instanceof_MongoWriteConcernError :: "error option \<Rightarrow> bool" where
  "instanceof_MongoWriteConcernError (Some (MongoWriteConcernError w d)) = True"
| "instanceof_MongoWriteConcernError _ = False"

section \<open>Sessions, commands and requests\<close>

record session =
  session_id :: nat
  session_txnNumber :: "nat option"
  session_clusterTime :: "cluster_time option"
  explicit :: bool

record server_api =
  version :: string
  strict :: "bool option"
  deprecationErrors :: "bool option"

text \<open>
  A command document under assembly: \<open>cmd_body\<close> is the caller's command, the other
  fields are the ones the assembler and the session layer stamp on it.
\<close>

record command_doc =
  cmd_body :: nat
  apiVersion :: "string option"
  apiStrict :: "bool option"
  apiDeprecationErrors :: "bool option"
  lsid :: "nat option"
  txnNumber :: "nat option"
  cmd_clusterTime :: "cluster_time option"

text \<open>
  The final command is the document itself or the legacy wrapping
  \<^verbatim>\<open>{ $query: cmd, $readPreference: ... }\<close>.
\<close>

datatype final_command = Plain command_doc | Query command_doc string

text \<open>
  \<^verbatim>\<open>CommandOptions\<close>: the read preference is the mode that
  \<^verbatim>\<open>getReadPreference\<close> resolved.
\<close>

record command_options =
  opt_session :: "session option"
  opt_noResponse :: "bool option"
  opt_socketTimeoutMS :: "nat option"
  opt_readPreference :: string

text \<open>An outgoing wire message (\<^verbatim>\<open>OpMsgRequest\<close> or \<^verbatim>\<open>OpQueryRequest\<close>).\<close>

record request =
  req_requestId :: int
  req_opMsg :: bool
  req_db :: string
  req_command :: final_command

text \<open>
  An inbound reply envelope. \<open>parse\<close> is the outcome of
  \<^verbatim>\<open>message.parse(operationDescription)\<close>: it throws, or it fills
  \<^verbatim>\<open>message.documents\<close>. \<open>moreToCome\<close> is false also when the envelope has no such
  field.
\<close>

record message =
  responseTo :: int
  requestId :: int
  moreToCome :: bool
  parse :: "error + document list"

section \<open>Completion handlers and what the connection lets the outside see\<close>

text \<open>
  A caller's completion handler is opaque code: it is named by a number, and calling it
  is recorded as the event \<open>Called\<close>; it is taken to return, and not to call the
  connection from inside the call. The wrapper that \<^verbatim>\<open>write\<close> installs when command
  monitoring is on is the closure \<open>MonitoringCallback\<close>, holding the command, the start
  time and the caller's handler.
\<close>

datatype callback = Callback nat | MonitoringCallback request nat nat

datatype event =
    Called nat "error option" "document option"
  | Emit_message message
  | Emit_commandStarted request
  | Emit_commandSucceeded request "document option" nat
  | Emit_commandFailed request "error + document" nat
  | Emit_clusterTimeReceived cluster_time
  | Emit_close
  | NextTick "nat option"
  | WriteCommand request
  | UpdateSessionFromResponse session document

text \<open>Calling a handler with \<open>(err, reply)\<close>; the wrapper is lines 723 to 753.\<close>

fun invoke :: "callback \<Rightarrow> error option \<Rightarrow> document option \<Rightarrow> event list" where
  "invoke (Callback k) err reply = [Called k err reply]"
| "invoke (MonitoringCallback command started k) err reply =
     (case err of
        Some e \<Rightarrow>
          (case reply of
             None \<Rightarrow> [Emit_commandFailed command (Inl e) started]
           | Some r \<Rightarrow>
               if ok r \<noteq> Some 1 then [Emit_commandFailed command (Inl e) started]
               else if ok r = Some 0 \<or> truthy_str (dollar_err r)
                 then [Emit_commandFailed command (Inr r) started]
               else [Emit_commandSucceeded command reply started])
      | None \<Rightarrow>
          (case reply of
             None \<Rightarrow> [Emit_commandSucceeded command reply started]
           | Some r \<Rightarrow>
               if ok r = Some 0 \<or> truthy_str (dollar_err r)
                 then [Emit_commandFailed command (Inr r) started]
               else [Emit_commandSucceeded command reply started]))
     @ [Called k err (if instanceof_MongoWriteConcernError err then None else reply)]"

text \<open>The caller's handler behind a callback.\<close>

fun caller :: "callback \<Rightarrow> nat" where
  "caller (Callback k) = k"
| "caller (MonitoringCallback command started k) = k"

text \<open>
  \<^verbatim>\<open>OperationDescription\<close>. The BSON parsing options and the compressor fields only
  reach \<^verbatim>\<open>message.parse\<close> and \<^verbatim>\<open>writeCommand\<close>, whose outcomes are given.
\<close>

record operation_description =
  op_requestId :: int
  cb :: callback
  op_session :: "session option"
  noResponse :: bool
  started :: nat

section \<open>The pending-operation map\<close>

text \<open>
  A JavaScript \<^verbatim>\<open>Map\<close> iterates in insertion order, and \<^verbatim>\<open>set\<close> on a key that is
  present keeps its place: an association list with one entry for each key.
\<close>

fun queue_set :: "(int \<times> 'v) list \<Rightarrow> int \<Rightarrow> 'v \<Rightarrow> (int \<times> 'v) list" where
  "queue_set [] k v = [(k, v)]"
| "queue_set ((k', v') # m) k v =
     (if k' = k then (k, v) # m else (k', v') # queue_set m k v)"

definition queue_delete :: "(int \<times> 'v) list \<Rightarrow> int \<Rightarrow> (int \<times> 'v) list" where
  "queue_delete m k = filter (\<lambda>e. fst e \<noteq> k) m"

definition queue_get :: "(int \<times> 'v) list \<Rightarrow> int \<Rightarrow> 'v option" where
  "queue_get m k = map_of m k"

section \<open>The callback-style connection\<close>

record stream_description =
  logicalSessionTimeoutMinutes :: "nat option"
  maxWireVersion :: nat
  nodejs_mock_server :: bool
  sharded :: bool
  frozen :: bool

record hello =
  maxBsonMessageSize :: "int option"
  hello_body :: nat

text \<open>
  The fields of \<^verbatim>\<open>Connection\<close>, then the state of the socket (\<open>stream_\<close>) and of the
  message stream (\<open>messageStream_\<close>) that the connection drives: whether its listeners
  are attached, whether it is destroyed, the socket's timeout, and the callback handed to
  \<^verbatim>\<open>stream.end\<close> with the error it captured. \<open>timers\<close> are the armed delayed
  timeouts, \<open>close_once\<close> the handlers that \<^verbatim>\<open>destroy\<close> registered with
  \<^verbatim>\<open>once('close')\<close>, \<open>trace\<close> everything the connection emitted or called, in order.
\<close>

record connection =
  ident :: conn_id
  address :: string
  socketTimeoutMS :: nat
  monitorCommands :: bool
  closed :: bool
  serverApi :: "server_api option"
  kDelayedTimeoutId :: "nat option"
  kDescription :: stream_description
  kGeneration :: int
  kLastUseTime :: nat
  kQueue :: "(int \<times> operation_description) list"
  kHello :: "hello option"
  kClusterTime :: "cluster_time option"
  isMonitoringConnection :: bool
  stream_timeout :: "nat option"
  stream_destroyed :: bool
  stream_writableEnded :: bool
  stream_listening :: bool
  stream_end_callback :: "error option option"
  messageStream_listening :: bool
  messageStream_destroyed :: bool
  pinned_listening :: bool
  timers :: "nat list"
  close_once :: "nat list"
  trace :: "event list"

record connection_options =
  options_id :: conn_id
  options_generation :: int
  options_socketTimeoutMS :: "nat option"
  options_monitorCommands :: bool
  options_serverApi :: "server_api option"
  options_description :: stream_description

text \<open>
  The constructor (lines 212 to 249). The address comes from \<^verbatim>\<open>streamIdentifier\<close>,
  the time from \<^verbatim>\<open>now()\<close>.
\<close>

definition constructor :: "string \<Rightarrow> nat \<Rightarrow> connection_options \<Rightarrow> connection" where
  "constructor addr now options =
     \<lparr> ident = options_id options,
       address = addr,
       socketTimeoutMS = (case options_socketTimeoutMS options of Some t \<Rightarrow> t | None \<Rightarrow> 0),
       monitorCommands = options_monitorCommands options,
       closed = False,
       serverApi = options_serverApi options,
       kDelayedTimeoutId = None,
       kDescription = options_description options,
       kGeneration = options_generation options,
       kLastUseTime = now,
       kQueue = [],
       kHello = None,
       kClusterTime = None,
       isMonitoringConnection = False,
       stream_timeout = None,
       stream_destroyed = False,
       stream_writableEnded = False,
       stream_listening = True,
       stream_end_callback = None,
       messageStream_listening = True,
       messageStream_destroyed = False,
       pinned_listening = True,
       timers = [],
       close_once = [],
       trace = [] \<rparr>"

text \<open>The accessors and the setters (lines 257 to 313).\<close>

definition generation :: "connection \<Rightarrow> int" where
  "generation c = (if kGeneration c \<noteq> 0 then kGeneration c else 0)"

definition set_generation :: "int \<Rightarrow> connection \<Rightarrow> connection" where
  "set_generation g c = c\<lparr>kGeneration := g\<rparr>"

text \<open>
  \<^verbatim>\<open>set hello\<close>: the description that \<^verbatim>\<open>receiveResponse\<close> produced is frozen and the
  response is stored.
\<close>

definition set_hello :: "hello option \<Rightarrow> stream_description \<Rightarrow> connection \<Rightarrow> connection" where
  "set_hello response received c =
     c\<lparr>kDescription := received\<lparr>frozen := True\<rparr>, kHello := response\<rparr>"

definition set_isMonitoringConnection :: "bool \<Rightarrow> connection \<Rightarrow> connection" where
  "set_isMonitoringConnection v c = c\<lparr>isMonitoringConnection := v\<rparr>"

definition markAvailable :: "nat \<Rightarrow> connection \<Rightarrow> connection" where
  "markAvailable now c = c\<lparr>kLastUseTime := now\<rparr>"

subsection \<open>Cleanup and destroy\<close>

text \<open>
  \<^verbatim>\<open>completeCleanup\<close> (lines 455 to 463): every pending handler is called with the
  error, in the map's order, the map is cleared, and \<^verbatim>\<open>close\<close> is emitted; the
  handlers \<^verbatim>\<open>destroy\<close> registered for it then schedule the destroy callbacks.
\<close>

definition completeCleanup :: "error option \<Rightarrow> connection \<Rightarrow> connection" where
  "completeCleanup error c =
     c\<lparr>trace := trace c
          @ concat (map (\<lambda>e. invoke (cb (snd e)) error None) (kQueue c))
          @ [Emit_close]
          @ map (\<lambda>k. NextTick (Some k)) (close_once c),
       kQueue := [],
       close_once := []\<rparr>"

text \<open>
  \<^verbatim>\<open>cleanup\<close> (lines 448 to 484). Without \<open>force\<close>, and when the socket has not been
  ended, the socket is ended and the rest waits for the callback of
  \<^verbatim>\<open>stream.end\<close>.
\<close>

definition cleanup :: "bool \<Rightarrow> error option \<Rightarrow> connection \<Rightarrow> connection" where
  "cleanup force error c =
     (if closed c then c
      else
        let c1 = c\<lparr>closed := True, stream_listening := False,
                   messageStream_listening := False, messageStream_destroyed := True\<rparr>
        in if force then completeCleanup error (c1\<lparr>stream_destroyed := True\<rparr>)
           else if \<not> stream_writableEnded c1
             then c1\<lparr>stream_writableEnded := True, stream_end_callback := Some error\<rparr>
           else completeCleanup error c1)"

text \<open>The callback given to \<^verbatim>\<open>stream.end\<close> (lines 477 to 480), when the socket calls it.\<close>

definition stream_end_done :: "connection \<Rightarrow> connection" where
  "stream_end_done c =
     (case stream_end_callback c of
        None \<Rightarrow> c
      | Some error \<Rightarrow>
          completeCleanup error (c\<lparr>stream_end_callback := None, stream_destroyed := True\<rparr>))"

record destroy_options =
  force :: bool

text \<open>\<^verbatim>\<open>destroy\<close> (lines 422 to 438).\<close>

definition destroy :: "destroy_options \<Rightarrow> nat option \<Rightarrow> connection \<Rightarrow> connection" where
  "destroy options callback c =
     (if closed c then c\<lparr>trace := trace c @ [NextTick callback]\<rparr>
      else
        let c1 = (case callback of
                    Some k \<Rightarrow> c\<lparr>close_once := close_once c @ [k]\<rparr>
                  | None \<Rightarrow> c);
            c2 = c1\<lparr>pinned_listening := False\<rparr>
        in cleanup (force options) (Some (MongoNetworkError (ident c) (address c))) c2)"

text \<open>The socket and message stream events (lines 315 to 330).\<close>

definition onError :: "error \<Rightarrow> connection \<Rightarrow> connection" where
  "onError error c = cleanup True (Some error) c"

definition onClose :: "connection \<Rightarrow> connection" where
  "onClose c = cleanup True (Some (MongoNetworkError (ident c) (address c))) c"

text \<open>
  \<^verbatim>\<open>onTimeout\<close> arms a timer of one millisecond, \<open>t\<close> being the timer that
  \<^verbatim>\<open>setTimeout\<close> returns; \<open>timer_fired\<close> is its body, run when the timer is still
  armed.
\<close>

definition onTimeout :: "nat \<Rightarrow> connection \<Rightarrow> connection" where
  "onTimeout t c = c\<lparr>kDelayedTimeoutId := Some t, timers := timers c @ [t]\<rparr>"

definition timer_fired :: "nat \<Rightarrow> connection \<Rightarrow> connection" where
  "timer_fired t c =
     (if t \<in> set (timers c)
      then cleanup True
             (Some (MongoNetworkTimeoutError (ident c) (address c) (kHello c = None)))
             (c\<lparr>timers := removeAll t (timers c)\<rparr>)
      else c)"

subsection \<open>Inbound replies\<close>

text \<open>
  The second half of \<^verbatim>\<open>onMessage\<close> (lines 370 to 419), once an operation
  description has been found: \<open>socketTimeout\<close> is the socket's timeout read at the start.
\<close>

definition deliver :: "message \<Rightarrow> nat \<Rightarrow> operation_description \<Rightarrow> connection \<Rightarrow> connection" where
  "deliver message socketTimeout operationDescription c =
     (let callback = cb operationDescription;
          c1 = c\<lparr>kQueue := queue_delete (kQueue c) (responseTo message)\<rparr>;
          c2 = (if moreToCome message
                then c1\<lparr>kQueue := queue_set (kQueue c1) (requestId message) operationDescription,
                        stream_timeout := Some socketTimeout\<rparr>
                else c1)
      in case parse message of
           Inl err \<Rightarrow> c2\<lparr>trace := trace c2 @ invoke callback (Some err) None\<rparr>
         | Inr [] \<Rightarrow> c2\<lparr>trace := trace c2 @ invoke callback None None\<rparr>
         | Inr (document # rest) \<Rightarrow>
             let c3 = (case op_session operationDescription of
                         Some s \<Rightarrow> c2\<lparr>trace := trace c2 @ [UpdateSessionFromResponse s document]\<rparr>
                       | None \<Rightarrow> c2);
                 c4 = (case dollar_clusterTime document of
                         Some ct \<Rightarrow> c3\<lparr>kClusterTime := Some ct,
                                      trace := trace c3 @ [Emit_clusterTimeReceived ct]\<rparr>
                       | None \<Rightarrow> c3)
             in case writeConcernError document of
                  Some w \<Rightarrow>
                    c4\<lparr>trace := trace c4
                         @ invoke callback (Some (MongoWriteConcernError w document)) (Some document)\<rparr>
                | None \<Rightarrow>
                    if ok document = Some 0 \<or> truthy_str (dollar_err document)
                       \<or> truthy_str (errmsg document) \<or> truthy_num (code document)
                    then c4\<lparr>trace := trace c4
                              @ invoke callback (Some (MongoServerError document)) None\<rparr>
                    else c4\<lparr>trace := trace c4 @ invoke callback None (Some document)\<rparr>)"

text \<open>\<^verbatim>\<open>onMessage\<close> (lines 332 to 420).\<close>

definition onMessage :: "message \<Rightarrow> connection \<Rightarrow> connection" where
  "onMessage message c =
     (let c1 = (case kDelayedTimeoutId c of
                  Some t \<Rightarrow> c\<lparr>timers := removeAll t (timers c), kDelayedTimeoutId := None\<rparr>
                | None \<Rightarrow> c);
          socketTimeout = (case stream_timeout c1 of Some t \<Rightarrow> t | None \<Rightarrow> 0);
          c2 = c1\<lparr>stream_timeout := Some 0\<rparr>;
          c3 = c2\<lparr>trace := trace c2 @ [Emit_message message]\<rparr>
      in case queue_get (kQueue c3) (responseTo message) of
           Some operationDescription \<Rightarrow> deliver message socketTimeout operationDescription c3
         | None \<Rightarrow>
             if isMonitoringConnection c3 then
               (if length (kQueue c3) > 1
                then cleanup True (Some (MongoRuntimeError INVALID_QUEUE_SIZE)) c3
                else case kQueue c3 of
                       [] \<Rightarrow> c3
                     | entry # rest \<Rightarrow>
                         deliver message socketTimeout (snd entry)
                           (c3\<lparr>kQueue := queue_delete (kQueue c3) (fst entry)\<rparr>))
             else c3)"

subsection \<open>Dispatch\<close>

text \<open>
  \<open>write_fn\<close> is \<^verbatim>\<open>write\<close> (lines 678 to 773). \<open>now\<close> is the clock, and \<open>writeCommand_throws\<close> says
  whether \<^verbatim>\<open>conn[kMessageStream].writeCommand\<close> throws and what; when it returns, the
  message has gone to the socket (\<open>WriteCommand\<close>).
\<close>

definition write_fn :: "request \<Rightarrow> command_options \<Rightarrow> nat \<Rightarrow> nat \<Rightarrow> error option \<Rightarrow> connection \<Rightarrow> connection" where
  "write_fn command options callback now writeCommand_throws conn =
     (let operationDescription0 =
            \<lparr> op_requestId = req_requestId command,
              cb = Callback callback,
              op_session = opt_session options,
              noResponse = (case opt_noResponse options of Some b \<Rightarrow> b | None \<Rightarrow> False),
              started = 0 \<rparr>;
          c1 = (case opt_socketTimeoutMS options of
                  Some t \<Rightarrow> conn\<lparr>stream_timeout := Some t\<rparr>
                | None \<Rightarrow>
                    if socketTimeoutMS conn \<noteq> 0
                    then conn\<lparr>stream_timeout := Some (socketTimeoutMS conn)\<rparr>
                    else conn);
          operationDescription =
            (if monitorCommands c1
             then operationDescription0\<lparr>started := now,
                                         cb := MonitoringCallback command now callback\<rparr>
             else operationDescription0);
          c2 = (if monitorCommands c1
                then c1\<lparr>trace := trace c1 @ [Emit_commandStarted command]\<rparr>
                else c1);
          c3 = (if \<not> noResponse operationDescription
                then c2\<lparr>kQueue := queue_set (kQueue c2) (op_requestId operationDescription)
                                     operationDescription\<rparr>
                else c2)
      in case writeCommand_throws of
           Some e \<Rightarrow>
             if \<not> noResponse operationDescription
             then c3\<lparr>kQueue := queue_delete (kQueue c3) (op_requestId operationDescription),
                     trace := trace c3 @ invoke (cb operationDescription) (Some e) None\<rparr>
             else c3\<lparr>trace := trace c3 @ invoke (cb operationDescription) None None\<rparr>
         | None \<Rightarrow>
             let c4 = c3\<lparr>trace := trace c3 @ [WriteCommand command]\<rparr>
             in if noResponse operationDescription
                then c4\<lparr>trace := trace c4 @ invoke (cb operationDescription) None None\<rparr>
                else c4)"

definition hasSessionSupport :: "connection \<Rightarrow> bool" where
  "hasSessionSupport conn = (logicalSessionTimeoutMinutes (kDescription conn) \<noteq> None)"

definition supportsOpMsg :: "connection \<Rightarrow> bool" where
  "supportsOpMsg conn =
     (maxWireVersion (kDescription conn) \<ge> 6 \<and> \<not> nodejs_mock_server (kDescription conn))"

text \<open>
  \<^verbatim>\<open>Connection.command\<close> (lines 486 to 556). \<open>applySession\<close> is the function of
  \<^verbatim>\<open>../sessions\<close>: it returns an error or nothing, and the command as it left it.
  \<open>newRequestId\<close> is the request id that the message constructor draws.
\<close>

definition command ::
  "(session \<Rightarrow> command_doc \<Rightarrow> command_options \<Rightarrow> error option \<times> command_doc) \<Rightarrow> int \<Rightarrow> nat
     \<Rightarrow> error option \<Rightarrow> string \<Rightarrow> command_doc \<Rightarrow> command_options \<Rightarrow> nat
     \<Rightarrow> connection \<Rightarrow> connection" where
  "command applySession newRequestId now writeCommand_throws db command0 options callback c =
     (let readPreference = opt_readPreference options;
          shouldUseOpMsg = supportsOpMsg c;
          cmd = (case serverApi c of
                   Some api \<Rightarrow>
                     command0\<lparr>apiVersion := Some (version api),
                              apiStrict := (case strict api of
                                              Some b \<Rightarrow> Some b | None \<Rightarrow> apiStrict command0),
                              apiDeprecationErrors :=
                                (case deprecationErrors api of
                                   Some b \<Rightarrow> Some b | None \<Rightarrow> apiDeprecationErrors command0)\<rparr>
                 | None \<Rightarrow> command0);
          send = (\<lambda>known cmd1.
            let cmd2 = (case known of
                          Some ct \<Rightarrow> cmd1\<lparr>cmd_clusterTime := Some ct\<rparr>
                        | None \<Rightarrow> cmd1);
                final = (if sharded (kDescription c) \<and> \<not> shouldUseOpMsg
                            \<and> readPreference \<noteq> ''primary''
                         then Query cmd2 readPreference else Plain cmd2);
                message = \<lparr> req_requestId = newRequestId, req_opMsg = shouldUseOpMsg,
                            req_db = db, req_command = final \<rparr>
            in write_fn message options callback now writeCommand_throws c)
      in case opt_session options of
           Some s \<Rightarrow>
             if hasSessionSupport c then
               (let known = (if (case (session_clusterTime s, kClusterTime c) of
                                   (Some sct, Some ct) \<Rightarrow> clusterTime sct > clusterTime ct
                                 | _ \<Rightarrow> False)
                             then session_clusterTime s else kClusterTime c)
                in case applySession s cmd options of
                     (Some err, cmd1) \<Rightarrow> c\<lparr>trace := trace c @ [Called callback (Some err) None]\<rparr>
                   | (None, cmd1) \<Rightarrow> send known cmd1)
             else if explicit s
               then c\<lparr>trace := trace c
                        @ [Called callback
                             (Some (MongoCompatibilityError
                                      ''Current topology does not support sessions'')) None]\<rparr>
             else send (kClusterTime c) cmd
         | None \<Rightarrow> send (kClusterTime c) cmd)"

text \<open>\<^verbatim>\<open>Connection.exhaustCommand\<close> (lines 558 to 565) passes everything to \<^verbatim>\<open>command\<close>.\<close>

definition exhaustCommand ::
  "(session \<Rightarrow> command_doc \<Rightarrow> command_options \<Rightarrow> error option \<times> command_doc) \<Rightarrow> int \<Rightarrow> nat
     \<Rightarrow> error option \<Rightarrow> string \<Rightarrow> command_doc \<Rightarrow> command_options \<Rightarrow> nat
     \<Rightarrow> connection \<Rightarrow> connection" where
  "exhaustCommand applySession newRequestId now writeCommand_throws db command0 options
       replyListener c =
     command applySession newRequestId now writeCommand_throws db command0 options
       replyListener c"

section \<open>The byte framer\<close>

type_synonym byte = "8 word"

text \<open>
  Modelled from the spec: \<^verbatim>\<open>BufferPool\<close> of \<^verbatim>\<open>../utils\<close> is not among the sources. The
  spec describes one ordered byte buffer that chunks are appended to in arrival order,
  a message header that starts with the total length as a signed 32-bit little-endian
  integer, and a read that removes the bytes it returns. The pool is a list of bytes:
  \<^verbatim>\<open>append\<close> is \<open>@\<close>, \<^verbatim>\<open>length\<close> is \<open>length\<close>, \<^verbatim>\<open>read(n)\<close> returns \<open>take n\<close> and
  leaves \<open>drop n\<close>, and \<^verbatim>\<open>getInt32\<close> is the function below, with no value while fewer
  than four bytes are buffered.
\<close>

definition readInt32LE :: "byte \<Rightarrow> byte \<Rightarrow> byte \<Rightarrow> byte \<Rightarrow> int" where
  "readInt32LE b0 b1 b2 b3 =
     sint (word_of_int (uint b0 + 2 ^ 8 * uint b1 + 2 ^ 16 * uint b2 + 2 ^ 24 * uint b3)
             :: 32 word)"

fun getInt32 :: "byte list \<Rightarrow> int option" where
  "getInt32 (b0 # b1 # b2 # b3 # rest) = Some (readInt32LE b0 b1 b2 b3)"
| "getInt32 bs = None"

definition kDefaultMaxBsonMessageSize :: int where
  "kDefaultMaxBsonMessageSize = 1024 * 1024 * 16 * 4"

text \<open>
  The generator \<^verbatim>\<open>readWireProtocolMessages\<close> (lines 1199 to 1234) as a loop over the
  chunks that the socket has delivered. Its state: the buffer pool, the messages yielded
  so far, the error it threw if it did, and the connection's delayed timeout timer, which
  every chunk cancels. When the chunks are used up and it has not thrown, the generator
  is suspended on the next \<^verbatim>\<open>data\<close> event with this state.
\<close>

record framer =
  bufferPool :: "byte list"
  yielded :: "byte list list"
  thrown :: "error option"
  delayedTimeoutId :: "nat option"

fun readWireProtocolMessages_loop :: "int \<Rightarrow> framer \<Rightarrow> byte list list \<Rightarrow> framer" where
  "readWireProtocolMessages_loop maxSize s [] = s"
| "readWireProtocolMessages_loop maxSize s (chunk # chunks) =
     (let s1 = s\<lparr>delayedTimeoutId := None, bufferPool := bufferPool s @ chunk\<rparr>
      in case getInt32 (bufferPool s1) of
           None \<Rightarrow> readWireProtocolMessages_loop maxSize s1 chunks
         | Some sizeOfMessage \<Rightarrow>
             if sizeOfMessage < 0
             then s1\<lparr>thrown := Some (MongoParseError sizeOfMessage None)\<rparr>
             else if sizeOfMessage > maxSize
             then s1\<lparr>thrown := Some (MongoParseError sizeOfMessage (Some maxSize))\<rparr>
             else if sizeOfMessage > int (length (bufferPool s1))
             then readWireProtocolMessages_loop maxSize s1 chunks
             else readWireProtocolMessages_loop maxSize
                    (s1\<lparr>yielded := yielded s1 @ [take (nat sizeOfMessage) (bufferPool s1)],
                        bufferPool := drop (nat sizeOfMessage) (bufferPool s1)\<rparr>)
                    chunks)"

text \<open>
  The bound of line 1204,
  \<^verbatim>\<open>connection.hello?.maxBsonMessageSize ?? kDefaultMaxBsonMessageSize\<close>.
\<close>

definition maxBsonMessageSize_of :: "hello option \<Rightarrow> int" where
  "maxBsonMessageSize_of connection_hello =
     (case connection_hello of
        Some h \<Rightarrow> (case maxBsonMessageSize h of
                     Some n \<Rightarrow> n | None \<Rightarrow> kDefaultMaxBsonMessageSize)
      | None \<Rightarrow> kDefaultMaxBsonMessageSize)"

text \<open>
  The generator started on a connection, of which it reads the handshake reply and the
  delayed timeout timer.
\<close>

definition readWireProtocolMessages :: "hello option \<Rightarrow> nat option \<Rightarrow> byte list list \<Rightarrow> framer" where
  "readWireProtocolMessages connection_hello connection_delayedTimeoutId chunks =
     readWireProtocolMessages_loop (maxBsonMessageSize_of connection_hello)
       \<lparr> bufferPool = [], yielded = [], thrown = None,
         delayedTimeoutId = connection_delayedTimeoutId \<rparr>
       chunks"

section \<open>The suspension-style connection\<close>

text \<open>
  The fields of \<^verbatim>\<open>ModernConnection\<close>. \<open>controller_aborted\<close> is the reason of the
  abort signal when the controller has been aborted, \<open>socket_timeout\<close> and
  \<open>socket_destroyed\<close> are the state of the socket, \<open>m_trace\<close> is everything the
  connection emitted or called, in order.
\<close>

record modern_connection =
  m_ident :: conn_id
  m_address :: string
  m_socketTimeoutMS :: nat
  m_monitorCommands :: bool
  m_serverApi :: "server_api option"
  m_delayedTimeoutId :: "nat option"
  m_kDescription :: stream_description
  m_kGeneration :: int
  m_kLastUseTime :: nat
  m_kHello :: "hello option"
  m_kClusterTime :: "cluster_time option"
  controller_aborted :: "error option"
  socket_timeout :: "nat option"
  socket_destroyed :: bool
  m_trace :: "event list"

definition m_constructor :: "string \<Rightarrow> nat \<Rightarrow> connection_options \<Rightarrow> modern_connection" where
  "m_constructor addr now options =
     \<lparr> m_ident = options_id options,
       m_address = addr,
       m_socketTimeoutMS = (case options_socketTimeoutMS options of Some t \<Rightarrow> t | None \<Rightarrow> 0),
       m_monitorCommands = options_monitorCommands options,
       m_serverApi = options_serverApi options,
       m_delayedTimeoutId = None,
       m_kDescription = options_description options,
       m_kGeneration = options_generation options,
       m_kLastUseTime = now,
       m_kHello = None,
       m_kClusterTime = None,
       controller_aborted = None,
       socket_timeout = None,
       socket_destroyed = False,
       m_trace = [] \<rparr>"

definition m_closed :: "modern_connection \<Rightarrow> bool" where
  "m_closed c = (controller_aborted c \<noteq> None)"

text \<open>
  \<^verbatim>\<open>ModernConnection.cleanup\<close> (lines 957 to 965): aborting with no error gives the
  signal the reason \<open>AbortError\<close>.
\<close>

definition m_cleanup :: "error option \<Rightarrow> modern_connection \<Rightarrow> modern_connection" where
  "m_cleanup error c =
     (if m_closed c then c
      else c\<lparr>socket_destroyed := True,
             controller_aborted := Some (case error of Some e \<Rightarrow> e | None \<Rightarrow> AbortError),
             m_trace := m_trace c @ [Emit_close]\<rparr>)"

definition m_hasSessionSupport :: "modern_connection \<Rightarrow> bool" where
  "m_hasSessionSupport c = (logicalSessionTimeoutMinutes (m_kDescription c) \<noteq> None)"

definition m_supportsOpMsg :: "modern_connection \<Rightarrow> bool" where
  "m_supportsOpMsg c =
     (maxWireVersion (m_kDescription c) \<ge> 6 \<and> \<not> nodejs_mock_server (m_kDescription c))"

text \<open>
  \<^verbatim>\<open>prepareCommand\<close> (lines 967 to 1030): it throws (\<open>Inl\<close>) or returns the message.
\<close>

definition prepareCommand ::
  "(session \<Rightarrow> command_doc \<Rightarrow> command_options \<Rightarrow> error option \<times> command_doc) \<Rightarrow> int
     \<Rightarrow> string \<Rightarrow> command_doc \<Rightarrow> command_options \<Rightarrow> modern_connection \<Rightarrow> error + request" where
  "prepareCommand applySession newRequestId db command0 options c =
     (let readPreference = opt_readPreference options;
          cmd = (case m_serverApi c of
                   Some api \<Rightarrow>
                     command0\<lparr>apiVersion := Some (version api),
                              apiStrict := (case strict api of
                                              Some b \<Rightarrow> Some b | None \<Rightarrow> apiStrict command0),
                              apiDeprecationErrors :=
                                (case deprecationErrors api of
                                   Some b \<Rightarrow> Some b | None \<Rightarrow> apiDeprecationErrors command0)\<rparr>
                 | None \<Rightarrow> command0);
          build = (\<lambda>known cmd1.
            let cmd2 = (case known of
                          Some ct \<Rightarrow> cmd1\<lparr>cmd_clusterTime := Some ct\<rparr>
                        | None \<Rightarrow> cmd1);
                final = (if sharded (m_kDescription c) \<and> \<not> m_supportsOpMsg c
                            \<and> readPreference \<noteq> ''primary''
                         then Query cmd2 readPreference else Plain cmd2)
            in Inr \<lparr> req_requestId = newRequestId, req_opMsg = m_supportsOpMsg c,
                     req_db = db, req_command = final \<rparr>)
      in case opt_session options of
           Some s \<Rightarrow>
             if m_hasSessionSupport c then
               (let known = (if (case (session_clusterTime s, m_kClusterTime c) of
                                   (Some sct, Some ct) \<Rightarrow> clusterTime sct > clusterTime ct
                                 | _ \<Rightarrow> False)
                             then session_clusterTime s else m_kClusterTime c)
                in case applySession s cmd options of
                     (Some sessionError, cmd1) \<Rightarrow> Inl sessionError
                   | (None, cmd1) \<Rightarrow> build known cmd1)
             else if explicit s
               then Inl (MongoCompatibilityError ''Current topology does not support sessions'')
             else build (m_kClusterTime c) cmd
         | None \<Rightarrow> build (m_kClusterTime c) cmd)"








section \<open>The event loop of the callback-style connection\<close>




section \<open>Reading a trace\<close>

text \<open>The calls of caller handlers, and the command-succeeded and command-failed events.\<close>

fun is_Called :: "event \<Rightarrow> bool" where
  "is_Called (Called k err reply) = True"
| "is_Called ev = False"

fun is_command_event :: "event \<Rightarrow> bool" where
  "is_command_event (Emit_commandSucceeded c r t) = True"
| "is_command_event (Emit_commandFailed c r t) = True"
| "is_command_event ev = False"

text \<open>The messages handed to the socket, and the cluster time stamped on a command.\<close>

fun sent :: "event list \<Rightarrow> request list" where
  "sent [] = []"
| "sent (WriteCommand r # es) = r # sent es"
| "sent (e # es) = sent es"

fun stamped :: "final_command \<Rightarrow> cluster_time option" where
  "stamped (Plain cmd) = cmd_clusterTime cmd"
| "stamped (Query cmd rp) = cmd_clusterTime cmd"







text \<open>
  The state in which \<open>onMessage\<close> looks for the operation (lines 333 to 343): the delayed
  timer cancelled, the socket's timeout cleared, the message emitted.
\<close>

definition received :: "message \<Rightarrow> connection \<Rightarrow> connection" where
  "received m c =
     c\<lparr>timers := (case kDelayedTimeoutId c of
                     Some t \<Rightarrow> removeAll t (timers c) | None \<Rightarrow> timers c),
       kDelayedTimeoutId := None, stream_timeout := Some 0,
       trace := trace c @ [Emit_message m]\<rparr>"

text \<open>
  Modelled from the spec: \<^verbatim>\<open>applySession\<close> of \<^verbatim>\<open>../sessions\<close> is not among the sources.
  The spec says that the session-derived fields (transaction number, session id) are
  merged into the command. The assembler takes the function as a parameter; this one
  stands for it in the examples.
\<close>

definition applySession_spec :: "session \<Rightarrow> command_doc \<Rightarrow> command_options \<Rightarrow> error option \<times> command_doc" where
  "applySession_spec s cmd options =
     (None, cmd\<lparr>lsid := Some (session_id s), txnNumber := session_txnNumber s\<rparr>)"

section \<open>Concrete values for the examples\<close>

definition example_description :: stream_description where
  "example_description =
     \<lparr> logicalSessionTimeoutMinutes = Some 30, maxWireVersion = 17,
       nodejs_mock_server = False, sharded = False, frozen = False \<rparr>"

definition example_options :: "bool \<Rightarrow> connection_options" where
  "example_options monitoring =
     \<lparr> options_id = Id 7, options_generation = 3, options_socketTimeoutMS = None,
       options_monitorCommands = monitoring, options_serverApi = None,
       options_description = example_description \<rparr>"

definition example_connection :: "bool \<Rightarrow> connection" where
  "example_connection monitoring = constructor ''db.example:27017'' 100 (example_options monitoring)"

definition example_modern :: "bool \<Rightarrow> modern_connection" where
  "example_modern monitoring = m_constructor ''db.example:27017'' 100 (example_options monitoring)"

definition example_command :: command_doc where
  "example_command =
     \<lparr> cmd_body = 0, apiVersion = None, apiStrict = None, apiDeprecationErrors = None,
       lsid = None, txnNumber = None, cmd_clusterTime = None \<rparr>"

definition example_request :: "int \<Rightarrow> request" where
  "example_request r =
     \<lparr> req_requestId = r, req_opMsg = True, req_db = ''admin'',
       req_command = Plain example_command \<rparr>"

definition example_command_options :: "bool option \<Rightarrow> command_options" where
  "example_command_options nr =
     \<lparr> opt_session = None, opt_noResponse = nr, opt_socketTimeoutMS = None,
       opt_readPreference = ''primary'' \<rparr>"

definition example_session :: session where
  "example_session =
     \<lparr> session_id = 4, session_txnNumber = None,
       session_clusterTime = Some \<lparr> clusterTime = 5, signature = 1 \<rparr>,
       explicit = False \<rparr>"

definition session_options :: command_options where
  "session_options =
     \<lparr> opt_session = Some example_session, opt_noResponse = None, opt_socketTimeoutMS = None,
       opt_readPreference = ''primary'' \<rparr>"

definition example_document :: document where
  "example_document =
     \<lparr> ok = Some 1, dollar_err = None, errmsg = None, code = None,
       writeConcernError = None, dollar_clusterTime = None, payload = 0 \<rparr>"

definition example_reply :: "int \<Rightarrow> int \<Rightarrow> bool \<Rightarrow> document \<Rightarrow> message" where
  "example_reply rt rid mtc d =
     \<lparr> responseTo = rt, requestId = rid, moreToCome = mtc, parse = Inr [d] \<rparr>"

text \<open>
  Connections with the request 11 pending for the handler 1, and with the request 12
  pending for the handler 2 as well.
\<close>

definition one_pending :: "bool \<Rightarrow> connection" where
  "one_pending monitoring =
     write_fn (example_request 11) (example_command_options None) 1 101 None
       (example_connection monitoring)"

definition two_pending :: "bool \<Rightarrow> connection" where
  "two_pending monitoring =
     write_fn (example_request 12) (example_command_options None) 2 101 None
       (one_pending monitoring)"

text \<open>Two header-only messages of 16 bytes, with the request ids 1 and 2.\<close>

definition header1 :: "byte list" where
  "header1 = [16, 0, 0, 0, 1, 0, 0, 0, 0, 0, 0, 0, 1, 0, 0, 0]"

definition header2 :: "byte list" where
  "header2 = [16, 0, 0, 0, 2, 0, 0, 0, 0, 0, 0, 0, 1, 0, 0, 0]"

lemmas example_defs =
  two_pending_def one_pending_def write_fn_def example_connection_def constructor_def
  example_options_def example_request_def example_command_options_def Let_def
  set_isMonitoringConnection_def example_reply_def example_document_def
  queue_get_def queue_delete_def example_command_def example_description_def

lemmas modern_defs =
  example_modern_def m_constructor_def example_session_def session_options_def
  applySession_spec_def prepareCommand_def m_hasSessionSupport_def m_supportsOpMsg_def
  hasSessionSupport_def supportsOpMsg_def command_def

section \<open>Cleanup\<close>

lemma invoke_calls_None:
  "filter is_Called (invoke f err None) = [Called (caller f) err None]"
  by (cases f) (auto split: option.splits)

lemma invoke_no_close: "Emit_close \<notin> set (invoke f err reply)"
  by (cases f) (auto split: option.splits)

lemma notify_calls:
  "filter is_Called (concat (map (\<lambda>e. invoke (cb (snd e)) error None) q)) =
     map (\<lambda>e. Called (caller (cb (snd e))) error None) q"
  by (induction q) (simp_all add: invoke_calls_None)

lemma notify_no_close:
  "Emit_close \<notin> set (concat (map (\<lambda>e. invoke (cb (snd e)) error None) q))"
  by (induction q) (simp_all add: invoke_no_close)

lemma cleanup_now:
  assumes "\<not> closed c" "f \<or> stream_writableEnded c"
  shows "closed (cleanup f error c)" "kQueue (cleanup f error c) = []"
    "trace (cleanup f error c) =
        trace c @ concat (map (\<lambda>e. invoke (cb (snd e)) error None) (kQueue c))
          @ [Emit_close] @ map (\<lambda>k. NextTick (Some k)) (close_once c)"
  using assms by (auto simp add: cleanup_def completeCleanup_def Let_def)

lemma cleanup_later:
  assumes "\<not> closed c" "\<not> f" "\<not> stream_writableEnded c"
  shows "closed (cleanup f error c)" "trace (cleanup f error c) = trace c"
    "kQueue (cleanup f error c) = kQueue c"
    "closed (stream_end_done (cleanup f error c))"
    "kQueue (stream_end_done (cleanup f error c)) = []"
    "trace (stream_end_done (cleanup f error c)) =
        trace c @ concat (map (\<lambda>e. invoke (cb (snd e)) error None) (kQueue c))
          @ [Emit_close] @ map (\<lambda>k. NextTick (Some k)) (close_once c)"
  using assms by (auto simp add: cleanup_def completeCleanup_def stream_end_done_def Let_def)

lemma cleanup_closed: "closed c \<Longrightarrow> cleanup g error' c = c"
  by (simp add: cleanup_def)

lemma closed_cleanup: "closed (cleanup f error c)"
  by (simp add: cleanup_def completeCleanup_def Let_def)

lemma stream_end_done_idem: "stream_end_done (stream_end_done c) = stream_end_done c"
  by (cases "stream_end_callback c") (simp_all add: stream_end_done_def completeCleanup_def)

text \<open>
  C1. Every trigger (\<open>destroy\<close>, \<open>onError\<close>, \<open>onClose\<close>, \<open>timer_fired\<close>, the invalid queue
  size in \<open>onMessage\<close>) closes the connection through \<open>cleanup\<close>. On an open connection,
  when the cleanup is forced or the socket has already been ended, the trace grows by the
  notification of every pending operation with the closing error, in the map's order, and
  only then by \<open>Emit_close\<close>, and the map is empty. When the cleanup is not forced and the
  socket has not been ended, the same happens when the callback of \<^verbatim>\<open>stream.end\<close>
  runs, and nothing is called before. The notifications call each pending caller's
  handler once, with the closing error and no reply, and hold no \<open>Emit_close\<close>. On a
  closed connection \<open>cleanup\<close> changes nothing, so a second cleanup, and a second run of
  the \<^verbatim>\<open>stream.end\<close> callback, change nothing and call no handler again.
\<close>

theorem cleanup_contract:
  "(\<not> closed c \<and> (f \<or> stream_writableEnded c) \<longrightarrow>
      closed (cleanup f error c) \<and> kQueue (cleanup f error c) = [] \<and>
      trace (cleanup f error c) =
        trace c @ concat (map (\<lambda>e. invoke (cb (snd e)) error None) (kQueue c))
          @ [Emit_close] @ map (\<lambda>k. NextTick (Some k)) (close_once c))
   \<and> (\<not> closed c \<and> \<not> f \<and> \<not> stream_writableEnded c \<longrightarrow>
      closed (cleanup f error c) \<and> trace (cleanup f error c) = trace c \<and>
      kQueue (cleanup f error c) = kQueue c \<and>
      closed (stream_end_done (cleanup f error c)) \<and>
      kQueue (stream_end_done (cleanup f error c)) = [] \<and>
      trace (stream_end_done (cleanup f error c)) =
        trace c @ concat (map (\<lambda>e. invoke (cb (snd e)) error None) (kQueue c))
          @ [Emit_close] @ map (\<lambda>k. NextTick (Some k)) (close_once c))
   \<and> filter is_Called (concat (map (\<lambda>e. invoke (cb (snd e)) error None) (kQueue c))) =
        map (\<lambda>e. Called (caller (cb (snd e))) error None) (kQueue c)
   \<and> Emit_close \<notin> set (concat (map (\<lambda>e. invoke (cb (snd e)) error None) (kQueue c)))
   \<and> (closed c \<longrightarrow> cleanup g error' c = c)
   \<and> cleanup g error' (cleanup f error c) = cleanup f error c
   \<and> stream_end_done (stream_end_done (cleanup f error c)) = stream_end_done (cleanup f error c)
   \<and> onError e c = cleanup True (Some e) c
   \<and> onClose c = cleanup True (Some (MongoNetworkError (ident c) (address c))) c
   \<and> (\<not> closed c \<longrightarrow>
        destroy dopts None c =
          cleanup (force dopts) (Some (MongoNetworkError (ident c) (address c)))
            (c\<lparr>pinned_listening := False\<rparr>))"
  using cleanup_now [of c f error] cleanup_later [of c f error] notify_calls [of error "kQueue c"]
    notify_no_close [of error "kQueue c"] cleanup_closed [of c g error']
    cleanup_closed [OF closed_cleanup, of g error' f error c]
    stream_end_done_idem [of "cleanup f error c"]
  by (simp add: onError_def onClose_def destroy_def)

lemma two_pending_open:
  "\<not> closed (two_pending False) \<and> \<not> stream_writableEnded (two_pending False)
   \<and> trace (two_pending False) = [WriteCommand (example_request 11), WriteCommand (example_request 12)]
   \<and> map fst (kQueue (two_pending False)) = [11, 12]
   \<and> map (\<lambda>e. cb (snd e)) (kQueue (two_pending False)) = [Callback 1, Callback 2]
   \<and> close_once (two_pending False) = []"
  by (simp add: example_defs)

text \<open>
  C1, an instance: two pending operations, closed with force and without.
\<close>

theorem cleanup_contract_witness:
  "\<not> closed (two_pending False)
   \<and> trace (cleanup True (Some (Thrown 0)) (two_pending False)) =
       [WriteCommand (example_request 11), WriteCommand (example_request 12),
        Called 1 (Some (Thrown 0)) None, Called 2 (Some (Thrown 0)) None, Emit_close]
   \<and> kQueue (cleanup True (Some (Thrown 0)) (two_pending False)) = []
   \<and> trace (cleanup False (Some (Thrown 0)) (two_pending False)) =
       [WriteCommand (example_request 11), WriteCommand (example_request 12)]
   \<and> trace (stream_end_done (cleanup False (Some (Thrown 0)) (two_pending False))) =
       [WriteCommand (example_request 11), WriteCommand (example_request 12),
        Called 1 (Some (Thrown 0)) None, Called 2 (Some (Thrown 0)) None, Emit_close]
   \<and> cleanup True (Some (Thrown 1)) (cleanup True (Some (Thrown 0)) (two_pending False)) =
       cleanup True (Some (Thrown 0)) (two_pending False)"
proof -
  have q: "concat (map (\<lambda>e. invoke (cb (snd e)) (Some (Thrown 0)) None) (kQueue (two_pending False)))
           = [Called 1 (Some (Thrown 0)) None, Called 2 (Some (Thrown 0)) None]"
    by (simp add: example_defs)
  show ?thesis
    using cleanup_contract [of "two_pending False" True "Some (Thrown 0)" True "Some (Thrown 1)"]
      cleanup_contract [of "two_pending False" False "Some (Thrown 0)" True "Some (Thrown 1)"]
      two_pending_open q
    by simp
qed

section \<open>Replies\<close>

lemma no_timer_update:
  "kDelayedTimeoutId c = None \<Longrightarrow>
     c\<lparr>kDelayedTimeoutId := None, stream_timeout := a, trace := b\<rparr> =
     c\<lparr>stream_timeout := a, trace := b\<rparr>"
  by (cases c) simp

lemma onMessage_alt:
  "onMessage m c =
     (case queue_get (kQueue c) (responseTo m) of
        Some op \<Rightarrow> deliver m (case stream_timeout c of Some t \<Rightarrow> t | None \<Rightarrow> 0) op (received m c)
      | None \<Rightarrow>
          if isMonitoringConnection c then
            (if length (kQueue c) > 1
             then cleanup True (Some (MongoRuntimeError INVALID_QUEUE_SIZE)) (received m c)
             else case kQueue c of
                    [] \<Rightarrow> received m c
                  | entry # rest \<Rightarrow>
                      deliver m (case stream_timeout c of Some t \<Rightarrow> t | None \<Rightarrow> 0) (snd entry)
                        ((received m c)\<lparr>kQueue := queue_delete (kQueue c) (fst entry)\<rparr>))
          else received m c)"
  by (cases "kDelayedTimeoutId c")
     (simp_all add: onMessage_def received_def Let_def no_timer_update
        split: option.splits list.splits)

lemma invoke_calls:
  "filter is_Called (invoke f err reply) =
     [Called (caller f) err
        (case f of Callback j \<Rightarrow> reply
         | MonitoringCallback r t j \<Rightarrow>
             if instanceof_MongoWriteConcernError err then None else reply)]"
  by (cases f) (auto split: option.splits)

lemma deliver_calls:
  "\<exists>err reply. filter is_Called (trace (deliver m t op c)) =
      filter is_Called (trace c) @ [Called (caller (cb op)) err reply]"
  by (auto simp add: deliver_def Let_def invoke_calls split: sum.splits list.splits option.splits)

lemma deliver_kQueue:
  "kQueue (deliver m t op c) =
     (if moreToCome m then queue_set (queue_delete (kQueue c) (responseTo m)) (requestId m) op
      else queue_delete (kQueue c) (responseTo m))"
  by (auto simp add: deliver_def Let_def split: sum.splits list.splits option.splits)

lemma deliver_closed: "closed (deliver m t op c) = closed c"
  by (auto simp add: deliver_def Let_def split: sum.splits list.splits option.splits)

text \<open>
  C2, as amended. A reply on an open monitoring connection whose response-to id matches
  no pending operation. With one entry in the map, the entry is removed under its
  request id and receives the treatment of a matched operation, \<open>deliver\<close>, which calls
  its caller's handler once and puts it back under the reply's request id when the reply
  announces more to come. With two or more entries, the connection is closed and every
  pending handler is called with the invalid queue size error, before \<open>Emit_close\<close>. With
  an empty map no handler is called and the map and the closed flag stay, but the reply
  has its effects: the delayed timer is cancelled, the socket's timeout is cleared and
  the message is emitted, as for every inbound message.
\<close>

theorem unmatched_reply_on_monitoring_connection:
  assumes "isMonitoringConnection c" "queue_get (kQueue c) (responseTo m) = None"
  shows "(kQueue c = [(r, op)] \<longrightarrow>
            onMessage m c =
              deliver m (case stream_timeout c of Some t \<Rightarrow> t | None \<Rightarrow> 0) op
                (c\<lparr>timers := (case kDelayedTimeoutId c of
                                 Some t \<Rightarrow> removeAll t (timers c) | None \<Rightarrow> timers c),
                    kDelayedTimeoutId := None, stream_timeout := Some 0,
                    trace := trace c @ [Emit_message m], kQueue := []\<rparr>)
          \<and> kQueue (onMessage m c) = (if moreToCome m then [(requestId m, op)] else [])
          \<and> closed (onMessage m c) = closed c
          \<and> (\<exists>err reply. filter is_Called (trace (onMessage m c)) =
                 filter is_Called (trace c) @ [Called (caller (cb op)) err reply]))
       \<and> (2 \<le> length (kQueue c) \<and> \<not> closed c \<longrightarrow>
            closed (onMessage m c) \<and> kQueue (onMessage m c) = []
          \<and> trace (onMessage m c) =
              trace c @ [Emit_message m]
                @ concat (map (\<lambda>e. invoke (cb (snd e))
                                      (Some (MongoRuntimeError INVALID_QUEUE_SIZE)) None) (kQueue c))
                @ [Emit_close] @ map (\<lambda>k. NextTick (Some k)) (close_once c)
          \<and> filter is_Called (trace (onMessage m c)) =
              filter is_Called (trace c)
                @ map (\<lambda>e. Called (caller (cb (snd e)))
                              (Some (MongoRuntimeError INVALID_QUEUE_SIZE)) None) (kQueue c))
       \<and> (kQueue c = [] \<longrightarrow>
            onMessage m c =
              c\<lparr>timers := (case kDelayedTimeoutId c of
                              Some t \<Rightarrow> removeAll t (timers c) | None \<Rightarrow> timers c),
                 kDelayedTimeoutId := None, stream_timeout := Some 0,
                 trace := trace c @ [Emit_message m]\<rparr>
          \<and> kQueue (onMessage m c) = [] \<and> closed (onMessage m c) = closed c
          \<and> filter is_Called (trace (onMessage m c)) = filter is_Called (trace c))"
proof (intro conjI impI)
  assume q: "kQueue c = [(r, op)]"
  show one: "onMessage m c =
              deliver m (case stream_timeout c of Some t \<Rightarrow> t | None \<Rightarrow> 0) op
                (c\<lparr>timers := (case kDelayedTimeoutId c of
                                 Some t \<Rightarrow> removeAll t (timers c) | None \<Rightarrow> timers c),
                    kDelayedTimeoutId := None, stream_timeout := Some 0,
                    trace := trace c @ [Emit_message m], kQueue := []\<rparr>)"
    using assms q by (simp add: onMessage_alt received_def queue_delete_def)
  show "kQueue (onMessage m c) = (if moreToCome m then [(requestId m, op)] else [])"
    by (simp add: one deliver_kQueue queue_delete_def)
  show "closed (onMessage m c) = closed c"
    by (simp add: one deliver_closed)
  show "\<exists>err reply. filter is_Called (trace (onMessage m c)) =
                 filter is_Called (trace c) @ [Called (caller (cb op)) err reply]"
    using deliver_calls [of m "case stream_timeout c of Some t \<Rightarrow> t | None \<Rightarrow> 0" op
        "c\<lparr>timers := (case kDelayedTimeoutId c of
                                 Some t \<Rightarrow> removeAll t (timers c) | None \<Rightarrow> timers c),
                    kDelayedTimeoutId := None, stream_timeout := Some 0,
                    trace := trace c @ [Emit_message m], kQueue := []\<rparr>"]
    by (simp add: one)
next
  assume h: "2 \<le> length (kQueue c) \<and> \<not> closed c"
  have two: "onMessage m c =
      cleanup True (Some (MongoRuntimeError INVALID_QUEUE_SIZE)) (received m c)"
    using assms h by (simp add: onMessage_alt)
  have o: "\<not> closed (received m c)" "kQueue (received m c) = kQueue c"
    "trace (received m c) = trace c @ [Emit_message m]"
    "close_once (received m c) = close_once c"
    using h by (simp_all add: received_def)
  show "closed (onMessage m c)" by (simp add: two closed_cleanup)
  show "kQueue (onMessage m c) = []" using o(1) by (simp add: two cleanup_now)
  show tr: "trace (onMessage m c) =
              trace c @ [Emit_message m]
                @ concat (map (\<lambda>e. invoke (cb (snd e))
                                      (Some (MongoRuntimeError INVALID_QUEUE_SIZE)) None) (kQueue c))
                @ [Emit_close] @ map (\<lambda>k. NextTick (Some k)) (close_once c)"
    using o by (simp add: two cleanup_now)
  show "filter is_Called (trace (onMessage m c)) =
              filter is_Called (trace c)
                @ map (\<lambda>e. Called (caller (cb (snd e)))
                              (Some (MongoRuntimeError INVALID_QUEUE_SIZE)) None) (kQueue c)"
    by (simp add: tr notify_calls filter_map comp_def)
next
  assume q: "kQueue c = []"
  show zero: "onMessage m c =
              c\<lparr>timers := (case kDelayedTimeoutId c of
                              Some t \<Rightarrow> removeAll t (timers c) | None \<Rightarrow> timers c),
                 kDelayedTimeoutId := None, stream_timeout := Some 0,
                 trace := trace c @ [Emit_message m]\<rparr>"
    using assms q by (simp add: onMessage_alt received_def)
  show "kQueue (onMessage m c) = []" by (simp add: zero q)
  show "closed (onMessage m c) = closed c" by (simp add: zero)
  show "filter is_Called (trace (onMessage m c)) = filter is_Called (trace c)" by (simp add: zero)
qed

text \<open>
  C2, an instance: the reply to an unknown request 99 with one operation pending, and
  with two.
\<close>

theorem unmatched_reply_witness:
  "isMonitoringConnection (set_isMonitoringConnection True (one_pending False))
   \<and> queue_get (kQueue (set_isMonitoringConnection True (one_pending False))) 99 = None
   \<and> map fst (kQueue (set_isMonitoringConnection True (one_pending False))) = [11]
   \<and> kQueue (onMessage (example_reply 99 100 False example_document)
               (set_isMonitoringConnection True (one_pending False))) = []
   \<and> filter is_Called (trace (onMessage (example_reply 99 100 False example_document)
               (set_isMonitoringConnection True (one_pending False))))
       = [Called 1 None (Some example_document)]
   \<and> \<not> closed (set_isMonitoringConnection True (two_pending False))
   \<and> closed (onMessage (example_reply 99 100 False example_document)
               (set_isMonitoringConnection True (two_pending False)))
   \<and> filter is_Called (trace (onMessage (example_reply 99 100 False example_document)
               (set_isMonitoringConnection True (two_pending False))))
       = [Called 1 (Some (MongoRuntimeError INVALID_QUEUE_SIZE)) None,
          Called 2 (Some (MongoRuntimeError INVALID_QUEUE_SIZE)) None]"
proof -
  let ?m = "example_reply 99 100 False example_document"
  let ?c1 = "set_isMonitoringConnection True (one_pending False)"
  let ?c2 = "set_isMonitoringConnection True (two_pending False)"
  let ?op = "\<lparr>op_requestId = 11, cb = Callback 1, op_session = None,
              noResponse = False, started = 0\<rparr>"
  have a: "isMonitoringConnection ?c1" "isMonitoringConnection ?c2"
    "queue_get (kQueue ?c1) (responseTo ?m) = None" "queue_get (kQueue ?c2) (responseTo ?m) = None"
    "responseTo ?m = 99" "\<not> closed ?c2" "filter is_Called (trace ?c2) = []"
    "length (kQueue ?c2) = 2" "map (\<lambda>e. caller (cb (snd e))) (kQueue ?c2) = [1, 2]"
    "map fst (kQueue ?c1) = [11]"
    by (simp_all add: example_defs)
  have d: "filter is_Called (trace (onMessage ?m ?c1)) = [Called 1 None (Some example_document)]"
    by (simp add: example_defs onMessage_def deliver_def)
  from a(9) have e: "map (\<lambda>e. Called (caller (cb (snd e))) (Some (MongoRuntimeError INVALID_QUEUE_SIZE)) None) (kQueue ?c2)
      = [Called 1 (Some (MongoRuntimeError INVALID_QUEUE_SIZE)) None,
          Called 2 (Some (MongoRuntimeError INVALID_QUEUE_SIZE)) None]"
    by (cases "kQueue ?c2") auto
  have q1: "kQueue ?c1 = [(11, ?op)]"
    by (simp add: example_defs)
  have l: "2 \<le> length (kQueue ?c2)" using a(8) by simp
  have t1: "kQueue (onMessage ?m ?c1) = (if moreToCome ?m then [(requestId ?m, ?op)] else [])"
    using unmatched_reply_on_monitoring_connection [OF a(1) a(3), of 11 ?op] q1
    by blast
  have t2: "closed (onMessage ?m ?c2)"
    "filter is_Called (trace (onMessage ?m ?c2)) =
       filter is_Called (trace ?c2)
         @ map (\<lambda>e. Called (caller (cb (snd e))) (Some (MongoRuntimeError INVALID_QUEUE_SIZE)) None)
             (kQueue ?c2)"
    using unmatched_reply_on_monitoring_connection [OF a(2) a(4), of 0 undefined] l a(6)
    by blast+
  have m: "\<not> moreToCome ?m" by (simp add: example_reply_def)
  show ?thesis
    using t1 t2 a d e m by simp
qed

text \<open>
  C2, the claim as stated fails: on a monitoring connection with an empty map, an
  unmatched reply is emitted as a message event and clears the socket's timeout.
\<close>

theorem empty_map_reply_counterexample:
  "isMonitoringConnection (set_isMonitoringConnection True (example_connection False))
   \<and> kQueue (set_isMonitoringConnection True (example_connection False)) = []
   \<and> trace (set_isMonitoringConnection True (example_connection False)) = []
   \<and> trace (onMessage (example_reply 99 100 False example_document)
               (set_isMonitoringConnection True (example_connection False)))
       = [Emit_message (example_reply 99 100 False example_document)]
   \<and> stream_timeout (set_isMonitoringConnection True (example_connection False)) = None
   \<and> stream_timeout (onMessage (example_reply 99 100 False example_document)
               (set_isMonitoringConnection True (example_connection False))) = Some 0"
  by (simp add: example_defs onMessage_def)

section \<open>Commands that expect no response\<close>

text \<open>
  C3, as amended. A command dispatched with \<^verbatim>\<open>noResponse = true\<close> never enters the
  pending map, and its handler is called with no error and no document right after the
  write: after \<open>WriteCommand\<close> when the write succeeds, and also when the write throws, in
  which case the exception is dropped. With command monitoring on, the started event
  comes first and the succeeded event just before the call.
\<close>

theorem noResponse_write:
  assumes "opt_noResponse options = Some True"
  shows "kQueue (write_fn req options k now wt c) = kQueue c
     \<and> trace (write_fn req options k now wt c) =
         trace c
          @ (if monitorCommands c then [Emit_commandStarted req] else [])
          @ (case wt of None \<Rightarrow> [WriteCommand req] | Some e \<Rightarrow> [])
          @ (if monitorCommands c then [Emit_commandSucceeded req None now] else [])
          @ [Called k None None]"
  using assms by (auto simp add: write_fn_def Let_def split: option.splits)

text \<open>C3, an instance: a monitored command without response, written without error.\<close>

theorem noResponse_write_witness:
  "opt_noResponse (example_command_options (Some True)) = Some True
   \<and> kQueue (write_fn (example_request 11) (example_command_options (Some True)) 1 101
              None (example_connection True)) = []
   \<and> trace (write_fn (example_request 11) (example_command_options (Some True)) 1 101
              None (example_connection True)) =
       [Emit_commandStarted (example_request 11), WriteCommand (example_request 11),
        Emit_commandSucceeded (example_request 11) None 101, Called 1 None None]"
proof -
  have a: "opt_noResponse (example_command_options (Some True)) = Some True"
    by (simp add: example_command_options_def)
  have b: "monitorCommands (example_connection True)" "trace (example_connection True) = []"
    "kQueue (example_connection True) = []"
    by (simp_all add: example_defs)
  show ?thesis
    using noResponse_write [OF a, of "example_request 11" 1 101 None "example_connection True"] a b
    by simp
qed

text \<open>
  C3, the claim as stated fails: the write throws, and the handler is still called with
  the success result, no error and no document.
\<close>

theorem noResponse_write_throws_counterexample:
  "opt_noResponse (example_command_options (Some True)) = Some True
   \<and> trace (example_connection False) = []
   \<and> trace (write_fn (example_request 11) (example_command_options (Some True)) 1 101
              (Some (Thrown 9)) (example_connection False)) = [Called 1 None None]"
  by (simp add: example_defs)

section \<open>Write concern errors\<close>

lemma deliver_writeConcernError:
  assumes "parse m = Inr (d # ds)" "writeConcernError d = Some w"
  shows "\<exists>pre. trace (deliver m t op c) =
            trace c @ pre @ invoke (cb op) (Some (MongoWriteConcernError w d)) (Some d)
          \<and> filter is_Called pre = [] \<and> filter is_command_event pre = []"
  using assms by (auto simp add: deliver_def Let_def split: option.splits)

lemma onMessage_writeConcernError:
  assumes "queue_get (kQueue c) (responseTo m) = Some op" "parse m = Inr (d # ds)"
    "writeConcernError d = Some w"
  shows "filter is_Called (trace (onMessage m c)) =
           filter is_Called (trace c)
             @ [Called (caller (cb op)) (Some (MongoWriteConcernError w d))
                  (case cb op of Callback j \<Rightarrow> Some d | MonitoringCallback r t j \<Rightarrow> None)]
       \<and> (cb op = MonitoringCallback req t0 k \<longrightarrow>
            filter is_command_event (trace (onMessage m c)) =
              filter is_command_event (trace c)
                @ [if ok d \<noteq> Some 1
                   then Emit_commandFailed req (Inl (MongoWriteConcernError w d)) t0
                   else if truthy_str (dollar_err d) then Emit_commandFailed req (Inr d) t0
                   else Emit_commandSucceeded req (Some d) t0])"
proof -
  let ?t = "case stream_timeout c of Some t \<Rightarrow> t | None \<Rightarrow> 0"
  have om: "onMessage m c = deliver m ?t op (received m c)"
    using assms(1) by (simp add: onMessage_alt)
  obtain pre where pre: "trace (deliver m ?t op (received m c)) =
            trace (received m c) @ pre
              @ invoke (cb op) (Some (MongoWriteConcernError w d)) (Some d)"
     "filter is_Called pre = []" "filter is_command_event pre = []"
    using deliver_writeConcernError [OF assms(2) assms(3)] by blast
  have r: "trace (received m c) = trace c @ [Emit_message m]"
    by (simp add: received_def)
  show ?thesis
    by (cases "cb op") (simp_all add: om pre r)
qed

text \<open>
  C6, as amended. A reply to a pending operation whose first document has a write concern
  error calls the caller's handler once, with the write concern error. When the
  operation was dispatched with command monitoring, one command event is emitted for the
  exchange: command-succeeded when the reply's \<^verbatim>\<open>ok\<close> is 1 and it has no truthy
  \<^verbatim>\<open>$err\<close>, command-failed otherwise.
\<close>

theorem writeConcernError_reply:
  assumes "queue_get (kQueue c) (responseTo m) = Some op" "parse m = Inr (d # ds)"
    "writeConcernError d = Some w"
  shows "filter is_Called (trace (onMessage m c)) =
           filter is_Called (trace c)
             @ [Called (caller (cb op)) (Some (MongoWriteConcernError w d))
                  (case cb op of Callback j \<Rightarrow> Some d | MonitoringCallback r t j \<Rightarrow> None)]
       \<and> (cb op = MonitoringCallback req t0 k \<longrightarrow>
            filter is_command_event (trace (onMessage m c)) =
              filter is_command_event (trace c)
                @ [if ok d \<noteq> Some 1
                   then Emit_commandFailed req (Inl (MongoWriteConcernError w d)) t0
                   else if truthy_str (dollar_err d) then Emit_commandFailed req (Inr d) t0
                   else Emit_commandSucceeded req (Some d) t0])"
  using assms by (rule onMessage_writeConcernError)

text \<open>
  C6, an instance: a monitored operation, and a reply with a write concern error and
  \<^verbatim>\<open>ok: 1\<close>.
\<close>

theorem writeConcernError_reply_witness:
  "queue_get (kQueue (one_pending True)) 11 =
     Some \<lparr>op_requestId = 11, cb = MonitoringCallback (example_request 11) 101 1,
           op_session = None, noResponse = False, started = 101\<rparr>
   \<and> filter is_Called (trace (onMessage
        (example_reply 11 100 False (example_document\<lparr>writeConcernError := Some 5\<rparr>))
        (one_pending True))) =
       [Called 1 (Some (MongoWriteConcernError 5 (example_document\<lparr>writeConcernError := Some 5\<rparr>)))
          None]
   \<and> filter is_command_event (trace (onMessage
        (example_reply 11 100 False (example_document\<lparr>writeConcernError := Some 5\<rparr>))
        (one_pending True))) =
       [Emit_commandSucceeded (example_request 11)
          (Some (example_document\<lparr>writeConcernError := Some 5\<rparr>)) 101]"
proof -
  let ?d = "example_document\<lparr>writeConcernError := Some 5\<rparr>"
  let ?m = "example_reply 11 100 False ?d"
  let ?op = "\<lparr>op_requestId = 11, cb = MonitoringCallback (example_request 11) 101 1,
              op_session = None, noResponse = False, started = 101\<rparr>"
  have a: "queue_get (kQueue (one_pending True)) (responseTo ?m) = Some ?op"
    "parse ?m = Inr [?d]" "writeConcernError ?d = Some 5" "responseTo ?m = 11"
    "ok ?d = Some 1" "\<not> truthy_str (dollar_err ?d)"
    "filter is_Called (trace (one_pending True)) = []"
    "filter is_command_event (trace (one_pending True)) = []"
    by (simp_all add: example_defs)
  show ?thesis
    using writeConcernError_reply [OF a(1) a(2) a(3), of "example_request 11" 101 1] a
    by simp
qed

text \<open>
  C6, the claim as stated fails: a reply with a write concern error and \<^verbatim>\<open>ok: 0\<close>,
  and a reply with a write concern error, \<^verbatim>\<open>ok: 1\<close> and an \<^verbatim>\<open>$err\<close> field, both
  make the monitored connection emit command-failed.
\<close>

theorem writeConcernError_failed_event_counterexample:
  "writeConcernError (example_document\<lparr>ok := Some 0, writeConcernError := Some 5\<rparr>) = Some 5
   \<and> filter is_command_event (trace (onMessage
        (example_reply 11 100 False (example_document\<lparr>ok := Some 0, writeConcernError := Some 5\<rparr>))
        (one_pending True))) =
       [Emit_commandFailed (example_request 11)
          (Inl (MongoWriteConcernError 5
                  (example_document\<lparr>ok := Some 0, writeConcernError := Some 5\<rparr>))) 101]
   \<and> writeConcernError (example_document\<lparr>dollar_err := Some ''e'', writeConcernError := Some 5\<rparr>)
        = Some 5
   \<and> ok (example_document\<lparr>dollar_err := Some ''e'', writeConcernError := Some 5\<rparr>) = Some 1
   \<and> filter is_command_event (trace (onMessage
        (example_reply 11 100 False
           (example_document\<lparr>dollar_err := Some ''e'', writeConcernError := Some 5\<rparr>))
        (one_pending True))) =
       [Emit_commandFailed (example_request 11)
          (Inr (example_document\<lparr>dollar_err := Some ''e'', writeConcernError := Some 5\<rparr>)) 101]"
  by (simp add: example_defs onMessage_def deliver_def)

lemma queue_get_set: "queue_get (queue_set q k v) k = Some v"
  by (induction q) (auto simp add: queue_get_def)

lemma write_fn_pending:
  assumes "opt_noResponse options \<noteq> Some True"
  shows "queue_get (kQueue (write_fn req options k now None c)) (req_requestId req) =
           Some \<lparr> op_requestId = req_requestId req,
                  cb = (if monitorCommands c then MonitoringCallback req now k else Callback k),
                  op_session = opt_session options, noResponse = False,
                  started = (if monitorCommands c then now else 0) \<rparr>"
    and "filter is_Called (trace (write_fn req options k now None c)) = filter is_Called (trace c)"
  using assms by (auto simp add: write_fn_def Let_def queue_get_set split: option.splits)

text \<open>
  C10. A command that expects a response is written, and the reply to it has a write
  concern error in its first document. The caller's handler is called once with the
  write concern error; with command monitoring off it also receives the reply document,
  with command monitoring on it receives no document.
\<close>

theorem writeConcernError_callback_payload:
  assumes "opt_noResponse options \<noteq> Some True" "responseTo m = req_requestId req"
    "parse m = Inr (d # ds)" "writeConcernError d = Some w"
  shows "filter is_Called (trace (onMessage m (write_fn req options k now None c))) =
           filter is_Called (trace c)
             @ [Called k (Some (MongoWriteConcernError w d))
                  (if monitorCommands c then None else Some d)]"
  using onMessage_writeConcernError [of "write_fn req options k now None c" m _ d ds w,
      OF _ assms(3) assms(4)] write_fn_pending [OF assms(1), of req k now c] assms(2)
  by (cases "monitorCommands c") simp_all

text \<open>C10, an instance: the same exchange with monitoring off and with monitoring on.\<close>

theorem writeConcernError_callback_payload_witness:
  "filter is_Called (trace (onMessage
      (example_reply 11 100 False (example_document\<lparr>writeConcernError := Some 5\<rparr>))
      (write_fn (example_request 11) (example_command_options None) 1 101 None
         (example_connection False)))) =
     [Called 1 (Some (MongoWriteConcernError 5 (example_document\<lparr>writeConcernError := Some 5\<rparr>)))
        (Some (example_document\<lparr>writeConcernError := Some 5\<rparr>))]
   \<and> filter is_Called (trace (onMessage
      (example_reply 11 100 False (example_document\<lparr>writeConcernError := Some 5\<rparr>))
      (write_fn (example_request 11) (example_command_options None) 1 101 None
         (example_connection True)))) =
     [Called 1 (Some (MongoWriteConcernError 5 (example_document\<lparr>writeConcernError := Some 5\<rparr>)))
        None]"
proof -
  let ?d = "example_document\<lparr>writeConcernError := Some 5\<rparr>"
  let ?m = "example_reply 11 100 False ?d"
  have a: "opt_noResponse (example_command_options None) \<noteq> Some True"
    "responseTo ?m = req_requestId (example_request 11)"
    "parse ?m = Inr [?d]" "writeConcernError ?d = Some 5"
    by (simp_all add: example_defs)
  have b: "\<not> monitorCommands (example_connection False)" "monitorCommands (example_connection True)"
    "trace (example_connection False) = []" "trace (example_connection True) = []"
    by (simp_all add: example_defs)
  show ?thesis
    using writeConcernError_callback_payload [OF a, of 1 101 "example_connection False"]
      writeConcernError_callback_payload [OF a, of 1 101 "example_connection True"] b
    by simp
qed

section \<open>The generation\<close>

lemma kGeneration_completeCleanup: "kGeneration (completeCleanup e c) = kGeneration c"
  by (simp add: completeCleanup_def)

lemma kGeneration_cleanup: "kGeneration (cleanup f e c) = kGeneration c"
  by (simp add: cleanup_def Let_def kGeneration_completeCleanup)

lemma kGeneration_stream_end_done: "kGeneration (stream_end_done c) = kGeneration c"
  by (simp add: stream_end_done_def kGeneration_completeCleanup split: option.splits)

lemma kGeneration_destroy: "kGeneration (destroy dopts callback c) = kGeneration c"
  by (simp add: destroy_def Let_def kGeneration_cleanup split: option.splits)

lemma kGeneration_deliver: "kGeneration (deliver m t op c) = kGeneration c"
  by (simp add: deliver_def Let_def split: sum.splits list.splits option.splits)

lemma kGeneration_onMessage: "kGeneration (onMessage m c) = kGeneration c"
  by (simp add: onMessage_alt received_def kGeneration_deliver kGeneration_cleanup
      split: list.splits option.splits)

lemma kGeneration_write_fn: "kGeneration (write_fn req options k now wt c) = kGeneration c"
  by (simp add: write_fn_def Let_def split: option.splits)

lemma kGeneration_command:
  "kGeneration (command ap rid now wt db cmd options k c) = kGeneration c"
  by (simp add: command_def Let_def kGeneration_write_fn split: option.splits prod.splits)

text \<open>
  C9, as amended. The accessor reports the generation that the constructor took from its
  options, and after construction the generation changes only through its setter: the
  setter replaces it, and every other operation of the connection leaves it as it was.
\<close>

theorem generation_changes_only_by_setter:
  "generation (constructor addr now options) = options_generation options
   \<and> generation (set_generation g c) = g
   \<and> generation (set_hello response received_description c) = generation c
   \<and> generation (set_isMonitoringConnection v c) = generation c
   \<and> generation (markAvailable now c) = generation c
   \<and> generation (onError e c) = generation c
   \<and> generation (onClose c) = generation c
   \<and> generation (onTimeout t c) = generation c
   \<and> generation (timer_fired t c) = generation c
   \<and> generation (onMessage m c) = generation c
   \<and> generation (destroy dopts callback c) = generation c
   \<and> generation (cleanup f err c) = generation c
   \<and> generation (stream_end_done c) = generation c
   \<and> generation (write_fn req copts k now wt c) = generation c
   \<and> generation (command ap rid now wt db cmd copts k c) = generation c
   \<and> generation (exhaustCommand ap rid now wt db cmd copts k c) = generation c"
  by (simp add: generation_def constructor_def set_generation_def set_hello_def
      set_isMonitoringConnection_def markAvailable_def onError_def onClose_def onTimeout_def
      timer_fired_def exhaustCommand_def kGeneration_cleanup kGeneration_onMessage
      kGeneration_destroy kGeneration_stream_end_done kGeneration_write_fn kGeneration_command)

text \<open>C9, an instance: a connection of generation 3 after a reply and after a close.\<close>

theorem generation_changes_only_by_setter_witness:
  "generation (example_connection False) = 3
   \<and> generation (onMessage (example_reply 11 100 False example_document) (one_pending False)) =
       generation (one_pending False)
   \<and> generation (onClose (one_pending False)) = generation (one_pending False)"
  using generation_changes_only_by_setter [of "''db.example:27017''" 100 "example_options False"]
    generation_changes_only_by_setter [where c = "one_pending False"
      and m = "example_reply 11 100 False example_document"]
  by (simp add: example_connection_def example_options_def)

text \<open>
  C9, the claim as stated fails: the setter changes the generation that the accessor
  reports.
\<close>

theorem generation_setter_counterexample:
  "generation (example_connection False) = 3
   \<and> generation (set_generation 5 (example_connection False)) = 5"
  by (simp add: generation_def set_generation_def example_defs)

section \<open>Cluster time gossip\<close>

lemma sent_append: "sent (xs @ ys) = sent xs @ sent ys"
  by (induction xs rule: sent.induct) simp_all

lemma sent_invoke: "sent (invoke f e r) = []"
  by (cases f) (auto split: option.splits)

lemma write_fn_sent:
  "sent (trace (write_fn req options k now None c)) = sent (trace c) @ [req]"
  by (auto simp add: write_fn_def Let_def sent_append sent_invoke split: option.splits)

lemma command_stamped:
  assumes "opt_session options = Some s"
    "\<And>cmd. fst (applySession s cmd options) = None"
    "\<And>cmd. cmd_clusterTime (snd (applySession s cmd options)) = cmd_clusterTime cmd"
    "hasSessionSupport c \<or> \<not> explicit s"
  shows "\<exists>req. sent (trace (command applySession rid now None db cmd0 options k c))
                  = sent (trace c) @ [req]
          \<and> stamped (req_command req) =
              (case kClusterTime c of
                 None \<Rightarrow> cmd_clusterTime cmd0
               | Some ct \<Rightarrow>
                   if hasSessionSupport c then
                     (case session_clusterTime s of
                        Some sct \<Rightarrow> if clusterTime sct > clusterTime ct then Some sct else Some ct
                      | None \<Rightarrow> Some ct)
                   else Some ct)"
proof -
  define cmd where "cmd = (case serverApi c of
                   Some api \<Rightarrow>
                     cmd0\<lparr>apiVersion := Some (version api),
                              apiStrict := (case strict api of
                                              Some b \<Rightarrow> Some b | None \<Rightarrow> apiStrict cmd0),
                              apiDeprecationErrors :=
                                (case deprecationErrors api of
                                   Some b \<Rightarrow> Some b | None \<Rightarrow> apiDeprecationErrors cmd0)\<rparr>
                 | None \<Rightarrow> cmd0)"
  have c0: "cmd_clusterTime cmd = cmd_clusterTime cmd0"
    by (simp add: cmd_def split: option.splits)
  obtain cmd1 where ap: "applySession s cmd options = (None, cmd1)"
    using assms(2) [of cmd] by (cases "applySession s cmd options") simp
  have c1: "cmd_clusterTime cmd1 = cmd_clusterTime cmd0"
    using assms(3) [of cmd] ap c0 by simp
  show ?thesis
    unfolding command_def Let_def cmd_def [symmetric]
    using assms(1) assms(4)
    by (cases "hasSessionSupport c"; cases "kClusterTime c"; cases "session_clusterTime s")
       (simp_all add: ap c0 c1 write_fn_sent)
qed

lemma prepareCommand_stamped:
  assumes "opt_session options = Some s"
    "\<And>cmd. fst (applySession s cmd options) = None"
    "\<And>cmd. cmd_clusterTime (snd (applySession s cmd options)) = cmd_clusterTime cmd"
    "m_hasSessionSupport c \<or> \<not> explicit s"
  shows "\<exists>req. prepareCommand applySession rid db cmd0 options c = Inr req
          \<and> stamped (req_command req) =
              (case m_kClusterTime c of
                 None \<Rightarrow> cmd_clusterTime cmd0
               | Some ct \<Rightarrow>
                   if m_hasSessionSupport c then
                     (case session_clusterTime s of
                        Some sct \<Rightarrow> if clusterTime sct > clusterTime ct then Some sct else Some ct
                      | None \<Rightarrow> Some ct)
                   else Some ct)"
proof -
  define cmd where "cmd = (case m_serverApi c of
                   Some api \<Rightarrow>
                     cmd0\<lparr>apiVersion := Some (version api),
                              apiStrict := (case strict api of
                                              Some b \<Rightarrow> Some b | None \<Rightarrow> apiStrict cmd0),
                              apiDeprecationErrors :=
                                (case deprecationErrors api of
                                   Some b \<Rightarrow> Some b | None \<Rightarrow> apiDeprecationErrors cmd0)\<rparr>
                 | None \<Rightarrow> cmd0)"
  have c0: "cmd_clusterTime cmd = cmd_clusterTime cmd0"
    by (simp add: cmd_def split: option.splits)
  obtain cmd1 where ap: "applySession s cmd options = (None, cmd1)"
    using assms(2) [of cmd] by (cases "applySession s cmd options") simp
  have c1: "cmd_clusterTime cmd1 = cmd_clusterTime cmd0"
    using assms(3) [of cmd] ap c0 by simp
  show ?thesis
    unfolding prepareCommand_def Let_def cmd_def [symmetric]
    using assms(1) assms(4)
    by (cases "m_hasSessionSupport c"; cases "m_kClusterTime c"; cases "session_clusterTime s")
       (simp_all add: ap c0 c1)
qed

text \<open>
  C5, as amended. A command is assembled with a session attached, the session layer
  reports no error and leaves the command's cluster time field alone, and the session is
  not an explicit one on a connection without session support (which is refused). On
  both connections, the command that is sent carries a cluster time exactly when the
  connection knows one (or the caller's command came with one): the connection's, or the
  session's when the connection supports sessions, both are known and the session's
  timestamp is strictly greater. When the connection knows none, the session's cluster
  time is not attached.
\<close>

theorem cluster_time_gossip:
  assumes "opt_session options = Some s"
    "\<And>cmd. fst (applySession s cmd options) = None"
    "\<And>cmd. cmd_clusterTime (snd (applySession s cmd options)) = cmd_clusterTime cmd"
    "hasSessionSupport c \<or> \<not> explicit s"
    "m_hasSessionSupport mc \<or> \<not> explicit s"
  shows "(\<exists>req. sent (trace (command applySession rid now None db cmd0 options k c))
                  = sent (trace c) @ [req]
          \<and> stamped (req_command req) =
              (case kClusterTime c of
                 None \<Rightarrow> cmd_clusterTime cmd0
               | Some ct \<Rightarrow>
                   if hasSessionSupport c then
                     (case session_clusterTime s of
                        Some sct \<Rightarrow> if clusterTime sct > clusterTime ct then Some sct else Some ct
                      | None \<Rightarrow> Some ct)
                   else Some ct))
       \<and> (\<exists>req. prepareCommand applySession rid db cmd0 options mc = Inr req
          \<and> stamped (req_command req) =
              (case m_kClusterTime mc of
                 None \<Rightarrow> cmd_clusterTime cmd0
               | Some ct \<Rightarrow>
                   if m_hasSessionSupport mc then
                     (case session_clusterTime s of
                        Some sct \<Rightarrow> if clusterTime sct > clusterTime ct then Some sct else Some ct
                      | None \<Rightarrow> Some ct)
                   else Some ct))"
proof (intro conjI)
  show "\<exists>req. sent (trace (command applySession rid now None db cmd0 options k c))
                  = sent (trace c) @ [req]
          \<and> stamped (req_command req) =
              (case kClusterTime c of
                 None \<Rightarrow> cmd_clusterTime cmd0
               | Some ct \<Rightarrow>
                   if hasSessionSupport c then
                     (case session_clusterTime s of
                        Some sct \<Rightarrow> if clusterTime sct > clusterTime ct then Some sct else Some ct
                      | None \<Rightarrow> Some ct)
                   else Some ct)"
    using assms(1) assms(2) assms(3) assms(4) by (rule command_stamped)
  show "\<exists>req. prepareCommand applySession rid db cmd0 options mc = Inr req
          \<and> stamped (req_command req) =
              (case m_kClusterTime mc of
                 None \<Rightarrow> cmd_clusterTime cmd0
               | Some ct \<Rightarrow>
                   if m_hasSessionSupport mc then
                     (case session_clusterTime s of
                        Some sct \<Rightarrow> if clusterTime sct > clusterTime ct then Some sct else Some ct
                      | None \<Rightarrow> Some ct)
                   else Some ct)"
    using assms(1) assms(2) assms(3) assms(5) by (rule prepareCommand_stamped)
qed

text \<open>
  C5, an instance: the connection knows the cluster time 3 and the session the cluster
  time 5, and the session's is sent; without a session the connection's is sent.
\<close>

theorem cluster_time_gossip_witness:
  "map (\<lambda>r. stamped (req_command r))
     (sent (trace (command applySession_spec 11 101 None ''admin'' example_command
                     session_options 1
                     ((example_connection False)
                        \<lparr>kClusterTime := Some \<lparr> clusterTime = 3, signature = 2 \<rparr>\<rparr>))))
     = [Some \<lparr> clusterTime = 5, signature = 1 \<rparr>]
   \<and> map_sum id (\<lambda>r. stamped (req_command r))
        (prepareCommand applySession_spec 11 ''admin'' example_command session_options
           ((example_modern False)\<lparr>m_kClusterTime := Some \<lparr> clusterTime = 3, signature = 2 \<rparr>\<rparr>))
     = Inr (Some \<lparr> clusterTime = 5, signature = 1 \<rparr>)"
proof -
  let ?c = "(example_connection False)\<lparr>kClusterTime := Some \<lparr> clusterTime = 3, signature = 2 \<rparr>\<rparr>"
  let ?mc = "(example_modern False)\<lparr>m_kClusterTime := Some \<lparr> clusterTime = 3, signature = 2 \<rparr>\<rparr>"
  have a: "opt_session session_options = Some example_session"
    "\<And>cmd. fst (applySession_spec example_session cmd session_options) = None"
    "\<And>cmd. cmd_clusterTime (snd (applySession_spec example_session cmd session_options))
             = cmd_clusterTime cmd"
    "hasSessionSupport ?c \<or> \<not> explicit example_session"
    "m_hasSessionSupport ?mc \<or> \<not> explicit example_session"
    by (simp_all add: example_defs modern_defs)
  have b: "sent (trace ?c) = []" "kClusterTime ?c = Some \<lparr> clusterTime = 3, signature = 2 \<rparr>"
    "m_kClusterTime ?mc = Some \<lparr> clusterTime = 3, signature = 2 \<rparr>"
    "hasSessionSupport ?c" "m_hasSessionSupport ?mc"
    "session_clusterTime example_session = Some \<lparr> clusterTime = 5, signature = 1 \<rparr>"
    by (simp_all add: example_defs modern_defs)
  from cluster_time_gossip [of session_options example_session applySession_spec ?c ?mc
      11 101 "''admin''" example_command 1, OF a]
  show ?thesis
    using b by auto
qed

text \<open>
  C5, the claim as stated fails: only the session knows a cluster time, and the command
  is sent without one, on both connections.
\<close>

theorem session_only_cluster_time_counterexample:
  "opt_session session_options = Some example_session
   \<and> session_clusterTime example_session = Some \<lparr> clusterTime = 5, signature = 1 \<rparr>
   \<and> kClusterTime (example_connection False) = None
   \<and> map (\<lambda>r. stamped (req_command r))
        (sent (trace (command applySession_spec 11 101 None ''admin'' example_command
                        session_options 1 (example_connection False)))) = [None]
   \<and> m_kClusterTime (example_modern False) = None
   \<and> map_sum id (\<lambda>r. stamped (req_command r))
        (prepareCommand applySession_spec 11 ''admin'' example_command session_options
           (example_modern False)) = Inr None"
  by (simp add: example_defs modern_defs)

section \<open>Framing\<close>

lemma getInt32_append: "getInt32 p = Some x \<Longrightarrow> getInt32 (p @ q) = Some x"
  by (cases p rule: getInt32.cases) auto

lemma getInt32_None_iff: "getInt32 p = None \<longleftrightarrow> length p < 4"
  by (cases p rule: getInt32.cases) auto

lemma framer_throws_step:
  assumes "getInt32 (bufferPool s @ chunk) = Some L" "L < 0 \<or> maxSize < L"
  shows "readWireProtocolMessages_loop maxSize s (chunk # chunks) =
           s\<lparr>delayedTimeoutId := None, bufferPool := bufferPool s @ chunk,
             thrown := Some (MongoParseError L (if L < 0 then None else Some maxSize))\<rparr>"
  using assms by (auto simp add: Let_def)

lemma framer_waits_step:
  assumes "length (bufferPool s @ chunk) < 4"
  shows "readWireProtocolMessages_loop maxSize s (chunk # chunks) =
           readWireProtocolMessages_loop maxSize
             (s\<lparr>delayedTimeoutId := None, bufferPool := bufferPool s @ chunk\<rparr>) chunks"
  using assms getInt32_None_iff [of "bufferPool s @ chunk"] by (simp add: Let_def)

lemma framer_throws_stream:
  assumes "getInt32 (bufferPool s @ concat chunks) = Some L" "L < 0 \<or> maxSize < L"
    "length (bufferPool s) < 4"
  shows "yielded (readWireProtocolMessages_loop maxSize s chunks) = yielded s
       \<and> thrown (readWireProtocolMessages_loop maxSize s chunks) =
           Some (MongoParseError L (if L < 0 then None else Some maxSize))"
  using assms
proof (induction chunks arbitrary: s)
  case Nil
  then show ?case using getInt32_None_iff [of "bufferPool s"] by simp
next
  case (Cons chunk chunks)
  show ?case
  proof (cases "length (bufferPool s @ chunk) < 4")
    case True
    let ?s = "s\<lparr>delayedTimeoutId := None, bufferPool := bufferPool s @ chunk\<rparr>"
    have "getInt32 (bufferPool ?s @ concat chunks) = Some L" using Cons.prems(1) by simp
    moreover have "length (bufferPool ?s) < 4" using True by simp
    ultimately show ?thesis
      using Cons.IH [of ?s] Cons.prems(2) framer_waits_step [OF True, of maxSize chunks] by simp
  next
    case False
    then obtain x where x: "getInt32 (bufferPool s @ chunk) = Some x"
      using getInt32_None_iff [of "bufferPool s @ chunk"]
      by (cases "getInt32 (bufferPool s @ chunk)") auto
    from getInt32_append [OF x, of "concat chunks"] Cons.prems(1) have "x = L" by simp
    with x framer_throws_step [of s chunk L maxSize chunks] Cons.prems(2) show ?thesis by simp
  qed
qed

text \<open>
  What the framer does with a length at the head of its buffer. When a chunk arrives and
  the first four bytes of the buffer declare a length that is negative or above the
  maximum, the framer throws the parse error in that very iteration, whatever else is
  buffered and whatever chunks would follow, before it compares the length with the
  buffer and before it reads a message. On a stream whose first four bytes declare such
  a length the framer yields no message and ends with the parse error, however the
  stream is cut into chunks. The maximum is the \<^verbatim>\<open>maxBsonMessageSize\<close> of the
  handshake reply, or 64 MiB when there is no handshake reply or it does not give one.
\<close>

lemma invalid_length_at_head:
  "(getInt32 (bufferPool s @ chunk) = Some L \<and> (L < 0 \<or> maxSize < L) \<longrightarrow>
      readWireProtocolMessages_loop maxSize s (chunk # chunks) =
        s\<lparr>delayedTimeoutId := None, bufferPool := bufferPool s @ chunk,
          thrown := Some (MongoParseError L (if L < 0 then None else Some maxSize))\<rparr>)
   \<and> (getInt32 (concat stream) = Some L \<and> (L < 0 \<or> maxBsonMessageSize_of h < L) \<longrightarrow>
        yielded (readWireProtocolMessages h t stream) = []
      \<and> thrown (readWireProtocolMessages h t stream) =
           Some (MongoParseError L (if L < 0 then None else Some (maxBsonMessageSize_of h))))
   \<and> maxBsonMessageSize_of None = 64 * 1024 * 1024
   \<and> maxBsonMessageSize_of (Some \<lparr>maxBsonMessageSize = None, hello_body = b\<rparr>) = 64 * 1024 * 1024
   \<and> maxBsonMessageSize_of (Some \<lparr>maxBsonMessageSize = Some n, hello_body = b\<rparr>) = n"
proof (intro conjI impI)
  assume "getInt32 (bufferPool s @ chunk) = Some L \<and> (L < 0 \<or> maxSize < L)"
  then show "readWireProtocolMessages_loop maxSize s (chunk # chunks) =
        s\<lparr>delayedTimeoutId := None, bufferPool := bufferPool s @ chunk,
          thrown := Some (MongoParseError L (if L < 0 then None else Some maxSize))\<rparr>"
    using framer_throws_step by blast
next
  assume a: "getInt32 (concat stream) = Some L \<and> (L < 0 \<or> maxBsonMessageSize_of h < L)"
  let ?s = "\<lparr> bufferPool = [], yielded = [], thrown = None, delayedTimeoutId = t \<rparr>"
  have r: "readWireProtocolMessages h t stream =
        readWireProtocolMessages_loop (maxBsonMessageSize_of h) ?s stream"
    by (simp add: readWireProtocolMessages_def)
  from a have "getInt32 (bufferPool ?s @ concat stream) = Some L" by simp
  from framer_throws_stream [OF this, of "maxBsonMessageSize_of h"] a
  show "yielded (readWireProtocolMessages h t stream) = []"
    "thrown (readWireProtocolMessages h t stream) =
           Some (MongoParseError L (if L < 0 then None else Some (maxBsonMessageSize_of h)))"
    by (simp_all add: r)
qed (simp_all add: maxBsonMessageSize_of_def kDefaultMaxBsonMessageSize_def)

text \<open>
  C7, the code at the failing input: one chunk holds a complete message and, after it,
  the four bytes of the length -1. The framer yields the message and throws nothing: the
  invalid length is in its buffer and is not looked at before another chunk arrives.
  With the same bytes in two chunks the framer throws the parse error when the second
  arrives. An oversized length after a complete message fares the same.
\<close>

theorem framer_invalid_length_after_message:
  "getInt32 [255, 255, 255, 255] = Some (- 1)
   \<and> yielded (readWireProtocolMessages None None [header1 @ [255, 255, 255, 255]]) = [header1]
   \<and> thrown (readWireProtocolMessages None None [header1 @ [255, 255, 255, 255]]) = None
   \<and> bufferPool (readWireProtocolMessages None None [header1 @ [255, 255, 255, 255]])
       = [255, 255, 255, 255]
   \<and> yielded (readWireProtocolMessages None None [header1, [255, 255, 255, 255]]) = [header1]
   \<and> thrown (readWireProtocolMessages None None [header1, [255, 255, 255, 255]])
       = Some (MongoParseError (- 1) None)
   \<and> getInt32 [1, 0, 0, 4] = Some 67108865
   \<and> thrown (readWireProtocolMessages None None [header1 @ [1, 0, 0, 4]]) = None
   \<and> thrown (readWireProtocolMessages None None [header1, [1, 0, 0, 4]])
       = Some (MongoParseError 67108865 (Some 67108864))"
  by (simp add: readWireProtocolMessages_def maxBsonMessageSize_of_def header1_def
      readInt32LE_def kDefaultMaxBsonMessageSize_def)

text \<open>
  C8, the code at the failing input: two complete messages in one chunk. The framer
  yields the first and keeps the second in its buffer; the same bytes in two chunks, or
  one byte per chunk, yield both.
\<close>

theorem framer_one_message_a_chunk:
  "yielded (readWireProtocolMessages None None [header1 @ header2]) = [header1]
   \<and> thrown (readWireProtocolMessages None None [header1 @ header2]) = None
   \<and> bufferPool (readWireProtocolMessages None None [header1 @ header2]) = header2
   \<and> yielded (readWireProtocolMessages None None [header1, header2]) = [header1, header2]
   \<and> yielded (readWireProtocolMessages None None (map (\<lambda>b. [b]) (header1 @ header2)))
       = [header1, header2]"
  by (simp add: readWireProtocolMessages_def maxBsonMessageSize_of_def header1_def header2_def
      readInt32LE_def kDefaultMaxBsonMessageSize_def)

section \<open>The end of an exhaust exchange\<close>


























end
